theory Spec2Isabelle
  imports Complex_Main "HOL-Library.Word" "HOL-Library.Sublist"
begin

section \<open>Exceptions\<close>

text \<open>
  The exceptions that can leave the functions of \<^verbatim>\<open>model.py\<close>. \<open>External\<close> stands for
  whatever an external collaborator (moviepy, the recogniser, the JSON writer) raises.
\<close>

datatype exn =
    TooManyMissingFrames
  | OverflowError
  | ValueError
  | RuntimeError
  | OSError
  | External string

section \<open>Python floats\<close>

text \<open>
  Word timestamps are Python floats (IEEE 754 binary64). A finite float is represented
  by the rational number it denotes; every arithmetic operation rounds its exact result
  to the nearest binary64 value, ties to even. Signed zeros are not distinguished
  (\<^verbatim>\<open>int(-0.0)\<close> is \<^verbatim>\<open>0\<close> and \<^verbatim>\<open>max(0, -0.0)\<close> is \<^verbatim>\<open>0\<close>, so the
  program cannot observe the sign).
\<close>

datatype pyfloat = Finite rat | PosInf | NegInf | NaN

fun bitlen :: "nat \<Rightarrow> nat" where
  "bitlen n = (if n = 0 then 0 else Suc (bitlen (n div 2)))"

declare bitlen.simps [simp del]

definition pow2 :: "int \<Rightarrow> rat" where
  "pow2 e = (if 0 \<le> e then 2 ^ nat e else 1 / 2 ^ nat (- e))"

definition floor_log2 :: "rat \<Rightarrow> int" where
  \<comment> \<open>for \<open>0 < a\<close>: the exponent \<open>e\<close> with \<open>2^e \<le> a < 2^(e+1)\<close>\<close>
  "floor_log2 a =
     (if 1 \<le> a then int (bitlen (nat \<lfloor>a\<rfloor>)) - 1
      else - int (bitlen (nat (\<lceil>1 / a\<rceil> - 1))))"

definition round_half_even :: "rat \<Rightarrow> int" where
  "round_half_even q =
     (let f = \<lfloor>q\<rfloor>; r = q - of_int f
      in if r < 1 / 2 then f
         else if 1 / 2 < r then f + 1
         else if even f then f else f + 1)"

definition round_double :: "rat \<Rightarrow> pyfloat" where
  \<comment> \<open>53 bits of precision; the last place is never below \<open>2^-1074\<close>; the largest
      finite value is \<open>(2^53 - 1) * 2^971\<close>, anything that rounds above it is infinite\<close>
  "round_double q =
     (if q = 0 then Finite 0
      else
        let a = \<bar>q\<bar>;
            e = max (floor_log2 a - 52) (- 1074);
            m = round_half_even (a / pow2 e)
        in if 971 < e \<or> (e = 971 \<and> 2 ^ 53 \<le> m)
           then (if q < 0 then NegInf else PosInf)
           else Finite (if q < 0 then - (of_int m * pow2 e) else of_int m * pow2 e))"

definition lit_0_1 :: rat where
  \<comment> \<open>the float literal \<^verbatim>\<open>0.1\<close>: \<^verbatim>\<open>0x1.999999999999ap-4\<close>\<close>
  "lit_0_1 = 3602879701896397 / 2 ^ 55"

definition fadd_lit :: "pyfloat \<Rightarrow> rat \<Rightarrow> pyfloat" where
  \<comment> \<open>\<^verbatim>\<open>x + c\<close> for a finite float constant \<open>c\<close>\<close>
  "fadd_lit x c = (case x of Finite a \<Rightarrow> round_double (a + c) | _ \<Rightarrow> x)"

definition fsub_lit :: "pyfloat \<Rightarrow> rat \<Rightarrow> pyfloat" where
  \<comment> \<open>\<^verbatim>\<open>x - c\<close> for a finite float constant \<open>c\<close>\<close>
  "fsub_lit x c = (case x of Finite a \<Rightarrow> round_double (a - c) | _ \<Rightarrow> x)"

definition fmul_pos :: "pyfloat \<Rightarrow> rat \<Rightarrow> pyfloat" where
  \<comment> \<open>\<^verbatim>\<open>x * c\<close> for a finite positive constant \<open>c\<close> (here \<^verbatim>\<open>1000\<close>)\<close>
  "fmul_pos x c = (case x of Finite a \<Rightarrow> round_double (a * c) | _ \<Rightarrow> x)"

definition py_max0 :: "pyfloat \<Rightarrow> pyfloat" where
  \<comment> \<open>\<^verbatim>\<open>max(0, x)\<close>: \<^verbatim>\<open>x\<close> replaces \<^verbatim>\<open>0\<close> only when \<^verbatim>\<open>x > 0\<close> holds, which it never does for NaN\<close>
  "py_max0 x =
     (case x of
        Finite a \<Rightarrow> if 0 < a then Finite a else Finite 0
      | PosInf \<Rightarrow> PosInf
      | NegInf \<Rightarrow> Finite 0
      | NaN \<Rightarrow> Finite 0)"

definition py_int :: "pyfloat \<Rightarrow> exn + int" where
  \<comment> \<open>\<^verbatim>\<open>int(x)\<close> truncates towards zero and raises on infinities and NaN\<close>
  "py_int x =
     (case x of
        Finite a \<Rightarrow> Inr (if 0 \<le> a then \<lfloor>a\<rfloor> else - \<lfloor>- a\<rfloor>)
      | PosInf \<Rightarrow> Inl OverflowError
      | NegInf \<Rightarrow> Inl OverflowError
      | NaN \<Rightarrow> Inl ValueError)"

section \<open>Recogniser output and the timestamp adjustment\<close>

text \<open>
  The recogniser (faster-whisper) is external: it returns segments, each with its words,
  and each word with a text and a start and end time in seconds.
\<close>

record whisper_word =
  w_word :: string
  w_start :: pyfloat
  w_end :: pyfloat

record segment =
  seg_start :: pyfloat
  seg_end :: pyfloat
  seg_text :: string
  seg_words :: "whisper_word list"

text \<open>The dictionaries \<^verbatim>\<open>{'text': ..., 'timestamp': (start, end)}\<close> of the word list.\<close>

record word_data =
  word_text :: string
  timestamp :: "pyfloat \<times> pyfloat"

definition adjust_word :: "whisper_word \<Rightarrow> word_data" where
  \<comment> \<open>the body of the inner loop of \<^verbatim>\<open>transcribe_audio_with_word_timestamps\<close>\<close>
  "adjust_word w =
     (let adjusted_start = py_max0 (fsub_lit (w_start w) lit_0_1);
          adjusted_end = fadd_lit (w_end w) lit_0_1
      in \<lparr>word_text = w_word w, timestamp = (adjusted_start, adjusted_end)\<rparr>)"

definition transcribe_audio_with_word_timestamps :: "segment list \<Rightarrow> word_data list" where
  \<comment> \<open>the two nested loops over the segments the recogniser returned\<close>
  "transcribe_audio_with_word_timestamps segments =
     concat (map (\<lambda>seg. map adjust_word (seg_words seg)) segments)"

section \<open>Normalising and matching words\<close>

text \<open>
  Texts are modelled as ASCII strings. \<^verbatim>\<open>str.strip\<close> and the class \<^verbatim>\<open>\s\<close> take the
  ASCII white space of Python (codes 9 to 13 and 28 to 32), \<^verbatim>\<open>\w\<close> is letters, digits and
  the underscore; bytes above 127 are kept as word characters and left alone by
  \<^verbatim>\<open>lower\<close>.
\<close>

definition py_isspace :: "char \<Rightarrow> bool" where
  "py_isspace c = (let n = (of_char c :: nat) in (9 \<le> n \<and> n \<le> 13) \<or> (28 \<le> n \<and> n \<le> 32))"

definition is_word_char :: "char \<Rightarrow> bool" where
  "is_word_char c =
     (let n = (of_char c :: nat)
      in (48 \<le> n \<and> n \<le> 57) \<or> (65 \<le> n \<and> n \<le> 90) \<or> (97 \<le> n \<and> n \<le> 122) \<or> n = 95
         \<or> 128 \<le> n)"

definition lower_char :: "char \<Rightarrow> char" where
  "lower_char c =
     (let n = (of_char c :: nat) in if 65 \<le> n \<and> n \<le> 90 then char_of (n + 32) else c)"

definition strip :: "string \<Rightarrow> string" where
  "strip s = rev (dropWhile py_isspace (rev (dropWhile py_isspace s)))"

definition clean_word :: "string \<Rightarrow> string" where
  \<comment> \<open>\<^verbatim>\<open>re.sub(r'[^\w\s]', '', text.strip().lower())\<close>\<close>
  "clean_word t = filter (\<lambda>c. is_word_char c \<or> py_isspace c) (map lower_char (strip t))"

fun starts_with :: "string \<Rightarrow> string \<Rightarrow> bool" where
  "starts_with [] t = True"
| "starts_with (x # xs) [] = False"
| "starts_with (x # xs) (y # ys) = (x = y \<and> starts_with xs ys)"

fun str_contains :: "string \<Rightarrow> string \<Rightarrow> bool" where
  \<comment> \<open>\<^verbatim>\<open>needle in haystack\<close> on Python strings\<close>
  "str_contains d [] = (d = [])"
| "str_contains d (c # cs) = (starts_with d (c # cs) \<or> str_contains d cs)"

fun is_curse :: "string \<Rightarrow> string list \<Rightarrow> bool" where
  \<comment> \<open>\<^verbatim>\<open>any(curse_word in word_cleaned for curse_word in curse_words)\<close>\<close>
  "is_curse word_cleaned [] = False"
| "is_curse word_cleaned (curse_word # rest) =
     (str_contains curse_word word_cleaned \<or> is_curse word_cleaned rest)"

fun split_newline :: "string \<Rightarrow> string list" where
  \<comment> \<open>\<^verbatim>\<open>s.split('\n')\<close>\<close>
  "split_newline [] = [[]]"
| "split_newline (c # cs) =
     (if c = CHR 0x0A then [] # split_newline cs
      else (c # hd (split_newline cs)) # tl (split_newline cs))"

definition CURSE_WORDS :: "string \<Rightarrow> string list" where
  \<comment> \<open>the module-level denylist, from the contents of \<^verbatim>\<open>curses.txt\<close>\<close>
  "CURSE_WORDS curses = split_newline curses"

section \<open>Audio segments\<close>

text \<open>
  A pydub \<^verbatim>\<open>AudioSegment\<close> is addressed in milliseconds: \<^verbatim>\<open>len\<close> is its duration in
  milliseconds and a slice takes millisecond positions. The model keeps that granularity:
  a segment is the list of its milliseconds of 16-bit PCM, and silence is amplitude zero.
  All segments share one sample format, so concatenation does not resample.
\<close>

type_synonym AudioSegment = "16 word list"

definition parse_position :: "int \<Rightarrow> int \<Rightarrow> int" where
  \<comment> \<open>a negative position counts from the end\<close>
  "parse_position n val = (if val < 0 then n - \<bar>val\<bar> else val)"

definition py_slice :: "'a list \<Rightarrow> int \<Rightarrow> int \<Rightarrow> 'a list" where
  \<comment> \<open>\<^verbatim>\<open>data[start:end]\<close> on a Python sequence\<close>
  "py_slice xs s e =
     (let n = int (length xs);
          s' = (if s < 0 then max 0 (n + s) else min s n);
          e' = (if e < 0 then max 0 (n + e) else min e n)
      in take (nat (e' - s')) (drop (nat s') xs))"

definition getitem_slice :: "AudioSegment \<Rightarrow> int option \<Rightarrow> int option \<Rightarrow> exn + AudioSegment" where
  \<comment> \<open>\<^verbatim>\<open>seg[start:stop]\<close>: both bounds are cut at the length, data that the bounds
      promise and the segment lacks is padded with silence, up to 2 ms\<close>
  "getitem_slice seg start stop =
     (let n = int (length seg);
          start0 = (case start of None \<Rightarrow> 0 | Some s \<Rightarrow> s);
          end0 = (case stop of None \<Rightarrow> n | Some e \<Rightarrow> e);
          start1 = parse_position n (min start0 n);
          end1 = parse_position n (min end0 n);
          data = py_slice seg start1 end1;
          missing = (end1 - start1) - int (length data)
      in if missing \<noteq> 0
         then (if 2 < missing then Inl TooManyMissingFrames
               else Inr (data @ concat (replicate (nat missing) (map (\<lambda>x. 0) (take 1 data)))))
         else Inr data)"

definition silent :: "int \<Rightarrow> AudioSegment" where
  \<comment> \<open>\<^verbatim>\<open>AudioSegment.silent(duration=d)\<close>\<close>
  "silent d = replicate (nat d) 0"

section \<open>The censor loop\<close>

definition to_ms :: "pyfloat \<Rightarrow> exn + int" where
  \<comment> \<open>\<^verbatim>\<open>int(t * 1000) + 300\<close>\<close>
  "to_ms t = (case py_int (fmul_pos t 1000) of Inl e \<Rightarrow> Inl e | Inr n \<Rightarrow> Inr (n + 300))"

definition clamp_start :: "int \<Rightarrow> int \<Rightarrow> int" where
  \<comment> \<open>\<^verbatim>\<open>if start_ms > end_ms: start_ms = end_ms\<close>\<close>
  "clamp_start start_ms end_ms = (if start_ms > end_ms then end_ms else start_ms)"

definition splice :: "AudioSegment \<Rightarrow> int \<Rightarrow> int \<Rightarrow> exn + AudioSegment" where
  \<comment> \<open>\<^verbatim>\<open>audio[:start_ms] + AudioSegment.silent(duration=(end_ms - start_ms)) + audio[end_ms:]\<close>\<close>
  "splice audio start_ms end_ms =
     (case getitem_slice audio None (Some start_ms) of
        Inl e \<Rightarrow> Inl e
      | Inr before \<Rightarrow>
          (case getitem_slice audio (Some end_ms) None of
             Inl e \<Rightarrow> Inl e
           | Inr after \<Rightarrow> Inr (before @ silent (end_ms - start_ms) @ after)))"

definition word_span :: "word_data \<Rightarrow> exn + (int \<times> int)" where
  \<comment> \<open>the span of a matched word: both conversions, then the clamp\<close>
  "word_span word_data =
     (case to_ms (fst (timestamp word_data)) of
        Inl e \<Rightarrow> Inl e
      | Inr start_ms \<Rightarrow>
          (case to_ms (snd (timestamp word_data)) of
             Inl e \<Rightarrow> Inl e
           | Inr end_ms \<Rightarrow> Inr (clamp_start start_ms end_ms, end_ms)))"

fun blank_words :: "AudioSegment \<Rightarrow> word_data list \<Rightarrow> string list \<Rightarrow> exn + AudioSegment" where
  \<comment> \<open>the loop of \<^verbatim>\<open>blank_audio_word_level\<close>\<close>
  "blank_words audio [] curse_words = Inr audio"
| "blank_words audio (word_data # rest) curse_words =
     (if is_curse (clean_word (word_text word_data)) curse_words
      then (case word_span word_data of
              Inl e \<Rightarrow> Inl e
            | Inr (start_ms, end_ms) \<Rightarrow>
                (case splice audio start_ms end_ms of
                   Inl e \<Rightarrow> Inl e
                 | Inr audio' \<Rightarrow> blank_words audio' rest curse_words))
      else blank_words audio rest curse_words)"

definition blank_audio_word_level ::
  "(string \<Rightarrow> exn + AudioSegment) \<Rightarrow> string \<Rightarrow> word_data list \<Rightarrow> string list \<Rightarrow> exn + AudioSegment" where
  \<comment> \<open>\<open>from_file\<close> is \<^verbatim>\<open>AudioSegment.from_file\<close> on the current file system\<close>
  "blank_audio_word_level from_file audio_path words curse_words =
     (case from_file audio_path of
        Inl e \<Rightarrow> Inl e
      | Inr audio \<Rightarrow> blank_words audio words curse_words)"

text \<open>
  The spans the loop applies, in order: one for each matched word. This list is the
  span list of the specification; the loop never builds it.
\<close>

fun silence_spans :: "word_data list \<Rightarrow> string list \<Rightarrow> exn + (int \<times> int) list" where
  "silence_spans [] curse_words = Inr []"
| "silence_spans (word_data # rest) curse_words =
     (if is_curse (clean_word (word_text word_data)) curse_words
      then (case word_span word_data of
              Inl e \<Rightarrow> Inl e
            | Inr sp \<Rightarrow>
                (case silence_spans rest curse_words of
                   Inl e \<Rightarrow> Inl e
                 | Inr sps \<Rightarrow> Inr (sp # sps)))
      else silence_spans rest curse_words)"

fun in_spans :: "int \<Rightarrow> (int \<times> int) list \<Rightarrow> bool" where
  \<comment> \<open>position \<open>i\<close> lies in \<open>[start_ms, end_ms)\<close> of some span\<close>
  "in_spans i [] = False"
| "in_spans i ((s, e) # sps) = ((s \<le> i \<and> i < e) \<or> in_spans i sps)"

fun apply_spans :: "AudioSegment \<Rightarrow> (int \<times> int) list \<Rightarrow> exn + AudioSegment" where
  \<comment> \<open>the splices of the loop, one span after the other, each on the result of the last\<close>
  "apply_spans audio [] = Inr audio"
| "apply_spans audio ((start_ms, end_ms) # sps) =
     (case splice audio start_ms end_ms of
        Inl e \<Rightarrow> Inl e
      | Inr audio' \<Rightarrow> apply_spans audio' sps)"

section \<open>The matcher\<close>

lemma starts_with_Nil [simp]: "starts_with d [] \<longleftrightarrow> d = []"
  by (cases d) simp_all

lemma starts_with_Cons: "starts_with d (c # cs) \<longleftrightarrow> d = [] \<or> (\<exists>d'. d = c # d' \<and> starts_with d' cs)"
  by (cases d) auto

lemma starts_with_prefix: "starts_with d t \<longleftrightarrow> prefix d t"
  by (induction d t rule: starts_with.induct) simp_all

lemma str_contains_sublist: "str_contains d t \<longleftrightarrow> sublist d t"
proof (induction t)
  case Nil
  then show ?case by simp
next
  case (Cons c cs)
  show ?case
  proof (cases d)
    case Nil
    then show ?thesis by simp
  next
    case (Cons x xs)
    then show ?thesis using Cons.IH
      by (simp add: starts_with_prefix sublist_Cons_right del: starts_with.simps)
  qed
qed

lemma is_curse_iff: "is_curse t D \<longleftrightarrow> (\<exists>d \<in> set D. sublist d t)"
  by (induction D) (simp_all add: str_contains_sublist del: str_contains.simps)

lemma is_curseI: "d \<in> set D \<Longrightarrow> str_contains d t \<Longrightarrow> is_curse t D"
  by (induction D) auto

lemma contains_dam:
  "str_contains d ''dam'' \<longleftrightarrow> d \<in> set [[], ''d'', ''a'', ''m'', ''da'', ''am'', ''dam'']"
  by (auto simp: starts_with_Cons)

text \<open>
  Claim C2, as the code has it: the matcher holds for a token exactly when some denylist
  entry is a substring of the token. With \<open>damn\<close> listed, the tokens \<open>damn\<close>,
  \<open>damned\<close> and \<open>goddamn\<close> match. The token \<open>dam\<close> matches exactly when some
  entry is one of its substrings (the empty string, \<open>d\<close>, \<open>a\<close>, \<open>m\<close>, \<open>da\<close>,
  \<open>am\<close>, \<open>dam\<close>); the entry \<open>damn\<close> alone does not match it.
\<close>

theorem matcher_substring:
  "(is_curse t D \<longleftrightarrow> (\<exists>d \<in> set D. sublist d t)) \<and>
   (''damn'' \<in> set D \<longrightarrow>
      is_curse ''damn'' D \<and> is_curse ''damned'' D \<and> is_curse ''goddamn'' D) \<and>
   (is_curse ''dam'' D \<longleftrightarrow>
      (\<exists>d \<in> set D. d \<in> set [[], ''d'', ''a'', ''m'', ''da'', ''am'', ''dam''])) \<and>
   \<not> is_curse ''dam'' [''damn'']"
proof (intro conjI impI)
  show "is_curse t D \<longleftrightarrow> (\<exists>d \<in> set D. sublist d t)" by (rule is_curse_iff)
next
  assume d: "''damn'' \<in> set D"
  show "is_curse ''damn'' D" by (rule is_curseI [OF d]) simp
next
  assume d: "''damn'' \<in> set D"
  show "is_curse ''damned'' D" by (rule is_curseI [OF d]) simp
next
  assume d: "''damn'' \<in> set D"
  show "is_curse ''goddamn'' D" by (rule is_curseI [OF d]) simp
next
  have "\<And>d. sublist d ''dam'' \<longleftrightarrow> d \<in> set [[], ''d'', ''a'', ''m'', ''da'', ''am'', ''dam'']"
    by (simp only: str_contains_sublist [symmetric] contains_dam)
  then show "is_curse ''dam'' D \<longleftrightarrow>
      (\<exists>d \<in> set D. d \<in> set [[], ''d'', ''a'', ''m'', ''da'', ''am'', ''dam''])"
    by (simp only: is_curse_iff)
next
  show "\<not> is_curse ''dam'' [''damn'']" by simp
qed

theorem matcher_substring_witness:
  "''damn'' \<in> set [''damn'', ''heck''] \<and> is_curse ''damn'' [''damn'', ''heck'']
   \<and> is_curse ''damned'' [''damn'', ''heck''] \<and> is_curse ''goddamn'' [''damn'', ''heck'']
   \<and> \<not> is_curse ''dam'' [''damn'']"
  using matcher_substring [of "''hello''" "[''damn'', ''heck'']"] by simp

text \<open>
  The denylist read from a file \<open>damn\<close> followed by a newline holds \<open>damn\<close> and the
  empty string: the token \<open>dam\<close> matches although \<open>dam\<close> is not listed.
\<close>

theorem matcher_dam_counterexample:
  "''damn'' \<in> set (CURSE_WORDS (''damn'' @ [CHR 0x0A]))
   \<and> is_curse ''dam'' (CURSE_WORDS (''damn'' @ [CHR 0x0A]))
   \<and> ''dam'' \<notin> set (CURSE_WORDS (''damn'' @ [CHR 0x0A]))"
  by (simp add: CURSE_WORDS_def)

end
